theory Spec2Isabelle
  imports Main
begin

section \<open>Render-graph configuration scripts\<close>

text \<open>
  The three Python scripts
  \<^item> \<^verbatim>\<open>Source/Mogwai/Data/charvl.BSDFViewer.py\<close>,
  \<^item> \<^verbatim>\<open>Source/Mogwai/Data/charvl.wireless.py\<close>,
  \<^item> \<^verbatim>\<open>Tests/image_tests/renderpasses/graphs/VBufferRT.py\<close>
  each define a builder function that issues a fixed sequence of calls to the rendering
  engine's Python API, bind the builder's result to a module-level name, and then try to
  register the graph with the ambient session object \<^verbatim>\<open>m\<close>.

  The scripts are embedded statement by statement as state-passing functions. A graph is
  a Python object that the builder mutates through a reference, so graph objects live in
  an explicit store and the scripts handle references into it.
\<close>

subsection \<open>Values, passes and graphs\<close>

text \<open>
  The option values that occur in the scripts' dictionary literals: the integer \<^verbatim>\<open>0\<close>,
  the boolean \<^verbatim>\<open>True\<close> and the enumeration member \<^verbatim>\<open>AccumulatePrecision.Double\<close>
  (enumeration name and member name).
\<close>

datatype pyval = PInt int | PBool bool | PEnum string string

text \<open>A dictionary literal, as the list of its items in source order.\<close>

type_synonym pydict = "(string \<times> pyval) list"

record pass =
  ptype :: string
  popts :: pydict

record graph =
  gname :: string
  passes :: "(string \<times> pass) list"
  edges :: "(string \<times> string) list"
  outputs :: "string list"

subsection \<open>Exceptions\<close>

text \<open>
  A class is identified as an object, not by its name: a class of the interpreter's own
  (\<open>Builtin\<close>, by name) is different from a class that some module defines (\<open>Defined\<close>,
  by module and name), also when the two carry the same name.
\<close>

datatype pyclass = Builtin string | Defined string string

text \<open>
  A raised exception is identified by the class of the exception object, given as the
  chain of classes from that class up to \<^verbatim>\<open>BaseException\<close>. A clause
  \<^verbatim>\<open>except C\<close> matches an exception whose class is \<^verbatim>\<open>C\<close> or a subclass of it.
\<close>

datatype exn = Exn (mro: "pyclass list")

definition isinstance :: "exn \<Rightarrow> pyclass \<Rightarrow> bool" where
  "isinstance e c = (c \<in> set (mro e))"

text \<open>What Python raises when a global name is looked up and is not bound.\<close>

definition NameError :: exn where
  "NameError = Exn [Builtin ''NameError'', Builtin ''Exception'', Builtin ''BaseException'']"

subsection \<open>Interpreter and engine state\<close>

text \<open>Every call a script makes into the engine, with its arguments.\<close>

datatype call =
    Call_loadRenderPassLibrary string
  | Call_RenderGraph string
  | Call_createPass string "pydict option"
  | Call_addPass nat pass string
  | Call_addEdge nat string string
  | Call_markOutput nat string
  | Call_addGraph nat

record state =
  libraries :: "string list"
  heap :: "graph list"
  calls :: "call list"
  globals :: "string \<rightharpoonup> nat"

text \<open>
  \<^item> \<open>libraries\<close>: the render-pass libraries loaded so far, in load order;
  \<^item> \<open>heap\<close>: the graph objects; a reference to a graph is its index;
  \<^item> \<open>calls\<close>: the calls made into the engine so far, oldest first;
  \<^item> \<open>globals\<close>: the module-level names bound by the script, each to a graph reference.
\<close>

text \<open>
  The ambient session object \<^verbatim>\<open>m\<close> is supplied by the host application, if at all.
  Its method \<^verbatim>\<open>addGraph\<close> is opaque: given the reference it is passed and the store,
  it may raise any exception or return normally, and it may change the store. The name
  \<^verbatim>\<open>m\<close> being unbound is \<open>None\<close> of type \<open>session option\<close>.
\<close>

type_synonym session = "nat \<Rightarrow> graph list \<Rightarrow> exn option \<times> graph list"

subsection \<open>The engine API\<close>

text \<open>
  Every method that mutates a graph goes through the reference. A Python reference always
  designates a live object; for an index outside the store the state is left as it is.
\<close>

definition update_graph :: "nat \<Rightarrow> (graph \<Rightarrow> graph) \<Rightarrow> state \<Rightarrow> state" where
  "update_graph g f h =
     (if g < length (heap h) then h\<lparr>heap := (heap h)[g := f (heap h ! g)]\<rparr> else h)"

definition log_call :: "call \<Rightarrow> state \<Rightarrow> state" where
  "log_call c h = h\<lparr>calls := calls h @ [c]\<rparr>"

definition loadRenderPassLibrary :: "string \<Rightarrow> state \<Rightarrow> state" where
  \<comment> \<open>Modelled from the spec: the engine function \<^verbatim>\<open>loadRenderPassLibrary(libraryFile)\<close>
      is not among the source files; it declares a native plugin dependency by filename.\<close>
  "loadRenderPassLibrary f h =
     log_call (Call_loadRenderPassLibrary f) (h\<lparr>libraries := libraries h @ [f]\<rparr>)"

definition RenderGraph :: "string \<Rightarrow> state \<Rightarrow> nat \<times> state" where
  \<comment> \<open>Modelled from the spec: the engine constructor \<^verbatim>\<open>RenderGraph(name) -> Graph\<close> is
      not among the source files; a graph has a name, an ordered collection of named
      passes, edges between ports and marked output ports, all empty at creation.\<close>
  "RenderGraph n h =
     (length (heap h),
      log_call (Call_RenderGraph n)
        (h\<lparr>heap := heap h @ [\<lparr>gname = n, passes = [], edges = [], outputs = []\<rparr>]\<rparr>))"

definition createPass :: "string \<Rightarrow> pydict option \<Rightarrow> state \<Rightarrow> pass \<times> state" where
  \<comment> \<open>Modelled from the spec: the engine function \<^verbatim>\<open>createPass(typeName, options?) -> Pass\<close>
      is not among the source files; a pass has a type identifier and the mapping of
      options supplied at creation, which is empty when the argument is left out.\<close>
  "createPass t opts h =
     (\<lparr>ptype = t, popts = (case opts of None \<Rightarrow> [] | Some d \<Rightarrow> d)\<rparr>,
      log_call (Call_createPass t opts) h)"

definition addPass :: "nat \<Rightarrow> pass \<Rightarrow> string \<Rightarrow> state \<Rightarrow> state" where
  \<comment> \<open>Modelled from the spec: the engine method \<^verbatim>\<open>Graph.addPass(pass, name)\<close> is not
      among the source files; it adds the pass under the name, after those already there.\<close>
  "addPass g p n h =
     log_call (Call_addPass g p n)
       (update_graph g (\<lambda>G. G\<lparr>passes := passes G @ [(n, p)]\<rparr>) h)"

definition addEdge :: "nat \<Rightarrow> string \<Rightarrow> string \<Rightarrow> state \<Rightarrow> state" where
  \<comment> \<open>Modelled from the spec: the engine method \<^verbatim>\<open>Graph.addEdge(srcPort, dstPort)\<close> is
      not among the source files; it adds the ordered pair of port references.\<close>
  "addEdge g src dst h =
     log_call (Call_addEdge g src dst)
       (update_graph g (\<lambda>G. G\<lparr>edges := edges G @ [(src, dst)]\<rparr>) h)"

definition markOutput :: "nat \<Rightarrow> string \<Rightarrow> state \<Rightarrow> state" where
  \<comment> \<open>Modelled from the spec: the engine method \<^verbatim>\<open>Graph.markOutput(port)\<close> is not among
      the source files; it adds the port to the marked outputs.\<close>
  "markOutput g port h =
     log_call (Call_markOutput g port)
       (update_graph g (\<lambda>G. G\<lparr>outputs := outputs G @ [port]\<rparr>) h)"

subsection \<open>The builder functions\<close>

text \<open>
  \<^verbatim>\<open>charvl.BSDFViewer.py\<close>, lines 4 to 14. The local names \<^verbatim>\<open>g\<close>,
  \<^verbatim>\<open>BSDFViewer\<close> and \<^verbatim>\<open>AccumulatePass\<close> are the bound variables.
\<close>

definition BSDFViewer_render_graph_DefaultRenderGraph :: "state \<Rightarrow> nat \<times> state" where
  "BSDFViewer_render_graph_DefaultRenderGraph h0 =
     (let (g, h) = RenderGraph ''DefaultRenderGraph'' h0;
          (BSDFViewer, h) = createPass ''BSDFViewer'' (Some [(''materialID'', PInt 0)]) h;
          h = addPass g BSDFViewer ''BSDFViewer'' h;
          (AccumulatePass, h) = createPass ''AccumulatePass''
             (Some [(''enabled'', PBool True),
                    (''precisionMode'', PEnum ''AccumulatePrecision'' ''Double'')]) h;
          h = addPass g AccumulatePass ''AccumulatePass'' h;
          h = addEdge g ''BSDFViewer.output'' ''AccumulatePass.input'' h;
          h = markOutput g ''AccumulatePass.output'' h
      in (g, h))"

text \<open>\<^verbatim>\<open>charvl.wireless.py\<close>, lines 3 to 8.\<close>

definition wireless_render_graph_DefaultRenderGraph :: "state \<Rightarrow> nat \<times> state" where
  "wireless_render_graph_DefaultRenderGraph h0 =
     (let (g, h) = RenderGraph ''DefaultRenderGraph'' h0;
          (wireframe, h) = createPass ''wireframe'' None h;
          h = addPass g wireframe ''wireframe'' h;
          h = markOutput g ''wireframe.output'' h
      in (g, h))"

text \<open>\<^verbatim>\<open>VBufferRT.py\<close>, lines 3 to 14.\<close>

definition render_graph_VBufferRT :: "state \<Rightarrow> nat \<times> state" where
  "render_graph_VBufferRT h0 =
     (let h = loadRenderPassLibrary ''GBuffer.dll'' h0;
          (g, h) = RenderGraph ''VBufferRT'' h;
          (p, h) = createPass ''VBufferRT'' None h;
          h = addPass g p ''VBufferRT'' h;
          h = markOutput g ''VBufferRT.vbuffer'' h;
          h = markOutput g ''VBufferRT.depth'' h;
          h = markOutput g ''VBufferRT.mvec'' h;
          h = markOutput g ''VBufferRT.viewW'' h
      in (g, h))"

subsection \<open>Module level: binding the result and registering it\<close>

text \<open>The statement \<^verbatim>\<open>X = builder()\<close>: run the builder, bind the global \<^verbatim>\<open>X\<close>.\<close>

definition assign_global :: "string \<Rightarrow> (state \<Rightarrow> nat \<times> state) \<Rightarrow> state \<Rightarrow> state" where
  "assign_global x builder st =
     (let (g, st') = builder st in st'\<lparr>globals := (globals st')(x \<mapsto> g)\<rparr>)"

text \<open>
  The expression statement \<^verbatim>\<open>m.addGraph(X)\<close>. Python evaluates the name \<^verbatim>\<open>m\<close> first
  (raising \<^verbatim>\<open>NameError\<close> when it is unbound), then the argument \<^verbatim>\<open>X\<close>, then makes the
  call. The result is the exception raised, if any, and the state reached.
\<close>

definition call_addGraph :: "session option \<Rightarrow> string \<Rightarrow> state \<Rightarrow> exn option \<times> state" where
  "call_addGraph m x st =
     (case m of
        None \<Rightarrow> (Some NameError, st)
      | Some s \<Rightarrow>
          (case globals st x of
             None \<Rightarrow> (Some NameError, st)
           | Some g \<Rightarrow>
               (let (r, hp) = s g (heap st)
                in (r, log_call (Call_addGraph g) (st\<lparr>heap := hp\<rparr>)))))"

text \<open>
  The statement \<^verbatim>\<open>try: body  except NameError: None\<close>. The name \<^verbatim>\<open>NameError\<close> in
  the clause is the interpreter's own class. The handler's body is the expression
  \<^verbatim>\<open>None\<close>, whose evaluation has no effect; an exception that the clause does not match
  leaves the statement as it came.
\<close>

definition try_except_NameError :: "exn option \<times> state \<Rightarrow> exn option \<times> state" where
  "try_except_NameError r =
     (case fst r of
        None \<Rightarrow> r
      | Some e \<Rightarrow> if isinstance e (Builtin ''NameError'') then (None, snd r) else r)"

text \<open>The three scripts, from the first statement after the import to the last.\<close>

definition script_BSDFViewer :: "session option \<Rightarrow> state \<Rightarrow> exn option \<times> state" where
  "script_BSDFViewer m st =
     (let st = assign_global ''DefaultRenderGraph'' BSDFViewer_render_graph_DefaultRenderGraph st
      in try_except_NameError (call_addGraph m ''DefaultRenderGraph'' st))"

definition script_wireless :: "session option \<Rightarrow> state \<Rightarrow> exn option \<times> state" where
  "script_wireless m st =
     (let st = assign_global ''DefaultRenderGraph'' wireless_render_graph_DefaultRenderGraph st
      in try_except_NameError (call_addGraph m ''DefaultRenderGraph'' st))"

definition script_VBufferRT :: "session option \<Rightarrow> state \<Rightarrow> exn option \<times> state" where
  "script_VBufferRT m st =
     (let st = assign_global ''VBufferRT'' render_graph_VBufferRT st
      in try_except_NameError (call_addGraph m ''VBufferRT'' st))"

subsection \<open>Port references and the order of construction calls\<close>

text \<open>
  A port reference has the form \<^verbatim>\<open><passName>.<portName>\<close>; the pass it belongs to is
  the text before the first dot.
\<close>

definition port_pass :: "string \<Rightarrow> string" where
  "port_pass port = takeWhile (\<lambda>c. c \<noteq> CHR ''.'') port"

text \<open>
  A sequence of calls respects the order of construction when every \<^verbatim>\<open>addEdge\<close> and
  every \<^verbatim>\<open>markOutput\<close> names ports of passes that an earlier \<^verbatim>\<open>addPass\<close> on the same
  graph has added. The second argument collects the (graph, pass name) pairs added so far.
\<close>

fun ports_known :: "call list \<Rightarrow> (nat \<times> string) list \<Rightarrow> bool" where
  "ports_known [] added = True"
| "ports_known (Call_addPass g p n # cs) added = ports_known cs ((g, n) # added)"
| "ports_known (Call_addEdge g src dst # cs) added =
     ((g, port_pass src) \<in> set added \<and> (g, port_pass dst) \<in> set added \<and> ports_known cs added)"
| "ports_known (Call_markOutput g port # cs) added =
     ((g, port_pass port) \<in> set added \<and> ports_known cs added)"
| "ports_known (c # cs) added = ports_known cs added"

text \<open>The calls a run has added to the log of the state it started from.\<close>

definition issued :: "state \<Rightarrow> state \<Rightarrow> call list" where
  "issued before after = drop (length (calls before)) (calls after)"

text \<open>
  What \<^verbatim>\<open>m.addGraph\<close> does when the script calls it on a session \<open>s\<close>: the exception it
  raises, if any, given the reference the builder returned and the store the builder left.
\<close>

definition addGraph_outcome :: "session \<Rightarrow> (state \<Rightarrow> nat \<times> state) \<Rightarrow> state \<Rightarrow> exn option" where
  "addGraph_outcome s builder st = fst (s (fst (builder st)) (heap (snd (builder st))))"

text \<open>
  A session on which to try the scripts: its \<^verbatim>\<open>addGraph\<close> raises the given exception
  and leaves the store as it is.
\<close>

definition raising_session :: "exn \<Rightarrow> session" where
  "raising_session e g hp = (Some e, hp)"

section \<open>Running the engine API\<close>

text \<open>
  Each API call on a state whose store ends in the graph under construction. These
  equations let a builder be run symbolically, from any starting state.
\<close>

lemma update_graph_fresh:
  "update_graph (length hp) f (h\<lparr>heap := hp @ [G], calls := cs\<rparr>) =
     h\<lparr>heap := hp @ [f G], calls := cs\<rparr>"
  by (simp add: update_graph_def)

lemma log_call_upd:
  "log_call c (h\<lparr>heap := hp, calls := cs\<rparr>) = h\<lparr>heap := hp, calls := cs @ [c]\<rparr>"
  by (simp add: log_call_def)

lemma loadRenderPassLibrary_run:
  "loadRenderPassLibrary f h =
     h\<lparr>libraries := libraries h @ [f], calls := calls h @ [Call_loadRenderPassLibrary f]\<rparr>"
  by (simp add: loadRenderPassLibrary_def log_call_def)

lemma RenderGraph_run:
  "RenderGraph n h =
     (length (heap h),
      h\<lparr>heap := heap h @ [\<lparr>gname = n, passes = [], edges = [], outputs = []\<rparr>],
        calls := calls h @ [Call_RenderGraph n]\<rparr>)"
  by (simp add: RenderGraph_def log_call_def)

lemma createPass_run:
  "createPass t opts (h\<lparr>heap := hp, calls := cs\<rparr>) =
     (\<lparr>ptype = t, popts = (case opts of None \<Rightarrow> [] | Some d \<Rightarrow> d)\<rparr>,
      h\<lparr>heap := hp, calls := cs @ [Call_createPass t opts]\<rparr>)"
  by (simp add: createPass_def log_call_def)

lemma addPass_run:
  "addPass (length hp) p n (h\<lparr>heap := hp @ [G], calls := cs\<rparr>) =
     h\<lparr>heap := hp @ [G\<lparr>passes := passes G @ [(n, p)]\<rparr>],
       calls := cs @ [Call_addPass (length hp) p n]\<rparr>"
  by (simp add: addPass_def update_graph_fresh log_call_upd)

lemma addEdge_run:
  "addEdge (length hp) src dst (h\<lparr>heap := hp @ [G], calls := cs\<rparr>) =
     h\<lparr>heap := hp @ [G\<lparr>edges := edges G @ [(src, dst)]\<rparr>],
       calls := cs @ [Call_addEdge (length hp) src dst]\<rparr>"
  by (simp add: addEdge_def update_graph_fresh log_call_upd)

lemma markOutput_run:
  "markOutput (length hp) port (h\<lparr>heap := hp @ [G], calls := cs\<rparr>) =
     h\<lparr>heap := hp @ [G\<lparr>outputs := outputs G @ [port]\<rparr>],
       calls := cs @ [Call_markOutput (length hp) port]\<rparr>"
  by (simp add: markOutput_def update_graph_fresh log_call_upd)

lemmas api_run =
  loadRenderPassLibrary_run RenderGraph_run createPass_run addPass_run addEdge_run
  markOutput_run

section \<open>The builders, run from any state\<close>

lemma BSDFViewer_builder_run:
  "BSDFViewer_render_graph_DefaultRenderGraph h =
     (length (heap h),
      h\<lparr>heap := heap h @
         [\<lparr>gname = ''DefaultRenderGraph'',
           passes =
             [(''BSDFViewer'', \<lparr>ptype = ''BSDFViewer'', popts = [(''materialID'', PInt 0)]\<rparr>),
              (''AccumulatePass'',
               \<lparr>ptype = ''AccumulatePass'',
                popts = [(''enabled'', PBool True),
                         (''precisionMode'', PEnum ''AccumulatePrecision'' ''Double'')]\<rparr>)],
           edges = [(''BSDFViewer.output'', ''AccumulatePass.input'')],
           outputs = [''AccumulatePass.output'']\<rparr>],
        calls := calls h @
         [Call_RenderGraph ''DefaultRenderGraph'',
          Call_createPass ''BSDFViewer'' (Some [(''materialID'', PInt 0)]),
          Call_addPass (length (heap h))
            \<lparr>ptype = ''BSDFViewer'', popts = [(''materialID'', PInt 0)]\<rparr> ''BSDFViewer'',
          Call_createPass ''AccumulatePass''
            (Some [(''enabled'', PBool True),
                   (''precisionMode'', PEnum ''AccumulatePrecision'' ''Double'')]),
          Call_addPass (length (heap h))
            \<lparr>ptype = ''AccumulatePass'',
             popts = [(''enabled'', PBool True),
                      (''precisionMode'', PEnum ''AccumulatePrecision'' ''Double'')]\<rparr>
            ''AccumulatePass'',
          Call_addEdge (length (heap h)) ''BSDFViewer.output'' ''AccumulatePass.input'',
          Call_markOutput (length (heap h)) ''AccumulatePass.output'']\<rparr>)"
  unfolding BSDFViewer_render_graph_DefaultRenderGraph_def
  by (simp add: api_run)

lemma wireless_builder_run:
  "wireless_render_graph_DefaultRenderGraph h =
     (length (heap h),
      h\<lparr>heap := heap h @
         [\<lparr>gname = ''DefaultRenderGraph'',
           passes = [(''wireframe'', \<lparr>ptype = ''wireframe'', popts = []\<rparr>)],
           edges = [],
           outputs = [''wireframe.output'']\<rparr>],
        calls := calls h @
         [Call_RenderGraph ''DefaultRenderGraph'',
          Call_createPass ''wireframe'' None,
          Call_addPass (length (heap h)) \<lparr>ptype = ''wireframe'', popts = []\<rparr> ''wireframe'',
          Call_markOutput (length (heap h)) ''wireframe.output'']\<rparr>)"
  unfolding wireless_render_graph_DefaultRenderGraph_def
  by (simp add: api_run)

lemma VBufferRT_builder_run:
  "render_graph_VBufferRT h =
     (length (heap h),
      h\<lparr>libraries := libraries h @ [''GBuffer.dll''],
        heap := heap h @
         [\<lparr>gname = ''VBufferRT'',
           passes = [(''VBufferRT'', \<lparr>ptype = ''VBufferRT'', popts = []\<rparr>)],
           edges = [],
           outputs = [''VBufferRT.vbuffer'', ''VBufferRT.depth'', ''VBufferRT.mvec'',
                      ''VBufferRT.viewW'']\<rparr>],
        calls := calls h @
         [Call_loadRenderPassLibrary ''GBuffer.dll'',
          Call_RenderGraph ''VBufferRT'',
          Call_createPass ''VBufferRT'' None,
          Call_addPass (length (heap h)) \<lparr>ptype = ''VBufferRT'', popts = []\<rparr> ''VBufferRT'',
          Call_markOutput (length (heap h)) ''VBufferRT.vbuffer'',
          Call_markOutput (length (heap h)) ''VBufferRT.depth'',
          Call_markOutput (length (heap h)) ''VBufferRT.mvec'',
          Call_markOutput (length (heap h)) ''VBufferRT.viewW'']\<rparr>)"
  unfolding render_graph_VBufferRT_def
  by (simp add: api_run)

lemmas builder_run = BSDFViewer_builder_run wireless_builder_run VBufferRT_builder_run

section \<open>What each builder yields\<close>

text \<open>
  C1. Run from any state, the builder of \<^verbatim>\<open>charvl.BSDFViewer.py\<close> returns a reference to a
  graph with exactly two passes, \<^verbatim>\<open>BSDFViewer\<close> (type \<^verbatim>\<open>BSDFViewer\<close>, option
  \<^verbatim>\<open>materialID = 0\<close>) and \<^verbatim>\<open>AccumulatePass\<close> (type \<^verbatim>\<open>AccumulatePass\<close>, options
  \<^verbatim>\<open>enabled = True\<close> and \<^verbatim>\<open>precisionMode = AccumulatePrecision.Double\<close>), exactly one
  edge, from \<^verbatim>\<open>BSDFViewer.output\<close> to \<^verbatim>\<open>AccumulatePass.input\<close>, and exactly one marked
  output, \<^verbatim>\<open>AccumulatePass.output\<close>; the two passes are created with these options.
\<close>

theorem BSDFViewer_graph_contents:
  "heap (snd (BSDFViewer_render_graph_DefaultRenderGraph h))
     ! fst (BSDFViewer_render_graph_DefaultRenderGraph h) =
     \<lparr>gname = ''DefaultRenderGraph'',
      passes =
        [(''BSDFViewer'', \<lparr>ptype = ''BSDFViewer'', popts = [(''materialID'', PInt 0)]\<rparr>),
         (''AccumulatePass'',
          \<lparr>ptype = ''AccumulatePass'',
           popts = [(''enabled'', PBool True),
                    (''precisionMode'', PEnum ''AccumulatePrecision'' ''Double'')]\<rparr>)],
      edges = [(''BSDFViewer.output'', ''AccumulatePass.input'')],
      outputs = [''AccumulatePass.output'']\<rparr>
   \<and> [c \<leftarrow> issued h (snd (BSDFViewer_render_graph_DefaultRenderGraph h)).
        case c of Call_createPass t d \<Rightarrow> True | _ \<Rightarrow> False] =
     [Call_createPass ''BSDFViewer'' (Some [(''materialID'', PInt 0)]),
      Call_createPass ''AccumulatePass''
        (Some [(''enabled'', PBool True),
               (''precisionMode'', PEnum ''AccumulatePrecision'' ''Double'')])]"
  by (simp add: BSDFViewer_builder_run issued_def)

text \<open>
  C2. Run from any state, the builder of \<^verbatim>\<open>VBufferRT.py\<close> returns a reference to a graph
  with exactly one pass, \<^verbatim>\<open>VBufferRT\<close> of type \<^verbatim>\<open>VBufferRT\<close>, no edge, and the four
  marked outputs \<^verbatim>\<open>VBufferRT.vbuffer\<close>, \<^verbatim>\<open>VBufferRT.depth\<close>, \<^verbatim>\<open>VBufferRT.mvec\<close> and
  \<^verbatim>\<open>VBufferRT.viewW\<close> in this order; the library \<^verbatim>\<open>GBuffer.dll\<close> is loaded, and the load
  is the first call the builder makes, before every call that constructs the graph.
\<close>

theorem VBufferRT_graph_contents:
  "heap (snd (render_graph_VBufferRT h)) ! fst (render_graph_VBufferRT h) =
     \<lparr>gname = ''VBufferRT'',
      passes = [(''VBufferRT'', \<lparr>ptype = ''VBufferRT'', popts = []\<rparr>)],
      edges = [],
      outputs = [''VBufferRT.vbuffer'', ''VBufferRT.depth'', ''VBufferRT.mvec'',
                 ''VBufferRT.viewW'']\<rparr>
   \<and> libraries (snd (render_graph_VBufferRT h)) = libraries h @ [''GBuffer.dll'']
   \<and> issued h (snd (render_graph_VBufferRT h)) =
     [Call_loadRenderPassLibrary ''GBuffer.dll'',
      Call_RenderGraph ''VBufferRT'',
      Call_createPass ''VBufferRT'' None,
      Call_addPass (fst (render_graph_VBufferRT h))
        \<lparr>ptype = ''VBufferRT'', popts = []\<rparr> ''VBufferRT'',
      Call_markOutput (fst (render_graph_VBufferRT h)) ''VBufferRT.vbuffer'',
      Call_markOutput (fst (render_graph_VBufferRT h)) ''VBufferRT.depth'',
      Call_markOutput (fst (render_graph_VBufferRT h)) ''VBufferRT.mvec'',
      Call_markOutput (fst (render_graph_VBufferRT h)) ''VBufferRT.viewW'']"
  by (simp add: VBufferRT_builder_run issued_def)

text \<open>
  C3. Run from any state, the builder of \<^verbatim>\<open>charvl.wireless.py\<close> returns a reference to a
  graph with exactly one pass, named \<^verbatim>\<open>wireframe\<close>, of type \<^verbatim>\<open>wireframe\<close> and created
  without an options argument, no edge, and exactly one marked output,
  \<^verbatim>\<open>wireframe.output\<close>.
\<close>

theorem wireframe_graph_contents:
  "passes (heap (snd (wireless_render_graph_DefaultRenderGraph h))
            ! fst (wireless_render_graph_DefaultRenderGraph h)) =
     [(''wireframe'', \<lparr>ptype = ''wireframe'', popts = []\<rparr>)]
   \<and> edges (heap (snd (wireless_render_graph_DefaultRenderGraph h))
            ! fst (wireless_render_graph_DefaultRenderGraph h)) = []
   \<and> outputs (heap (snd (wireless_render_graph_DefaultRenderGraph h))
            ! fst (wireless_render_graph_DefaultRenderGraph h)) = [''wireframe.output'']
   \<and> [c \<leftarrow> issued h (snd (wireless_render_graph_DefaultRenderGraph h)).
        case c of Call_createPass t d \<Rightarrow> True | _ \<Rightarrow> False] =
     [Call_createPass ''wireframe'' None]"
  by (simp add: wireless_builder_run issued_def)

text \<open>
  C9. The graphs of the two Mogwai scripts are both named \<^verbatim>\<open>DefaultRenderGraph\<close>; the
  graph of the wireframe script is therefore not named \<^verbatim>\<open>wireframe\<close>. The graph of the
  VBufferRT script is named \<^verbatim>\<open>VBufferRT\<close>.
\<close>

theorem graph_names:
  "gname (heap (snd (BSDFViewer_render_graph_DefaultRenderGraph h))
            ! fst (BSDFViewer_render_graph_DefaultRenderGraph h)) = ''DefaultRenderGraph''
   \<and> gname (heap (snd (wireless_render_graph_DefaultRenderGraph h))
            ! fst (wireless_render_graph_DefaultRenderGraph h)) = ''DefaultRenderGraph''
   \<and> gname (heap (snd (wireless_render_graph_DefaultRenderGraph h))
            ! fst (wireless_render_graph_DefaultRenderGraph h)) \<noteq> ''wireframe''
   \<and> gname (heap (snd (render_graph_VBufferRT h)) ! fst (render_graph_VBufferRT h)) =
       ''VBufferRT''"
  by (simp add: builder_run)

section \<open>Module level\<close>

lemma assign_global_run:
  "assign_global x builder st =
     (snd (builder st))\<lparr>globals := (globals (snd (builder st)))(x \<mapsto> fst (builder st))\<rparr>"
  by (simp add: assign_global_def split_beta)

lemma call_addGraph_absent: "call_addGraph None x st = (Some NameError, st)"
  by (simp add: call_addGraph_def)

lemma call_addGraph_present:
  "globals st x = Some g \<Longrightarrow>
   call_addGraph (Some s) x st =
     (fst (s g (heap st)),
      st\<lparr>heap := snd (s g (heap st)), calls := calls st @ [Call_addGraph g]\<rparr>)"
  by (simp add: call_addGraph_def log_call_def split_beta)

lemma NameError_is_NameError: "isinstance NameError (Builtin ''NameError'')"
  by (simp add: isinstance_def NameError_def)

lemma try_except_NameError_raised:
  "fst (try_except_NameError r) =
     (case fst r of
        None \<Rightarrow> None
      | Some e \<Rightarrow> if isinstance e (Builtin ''NameError'') then None else Some e)"
  by (simp add: try_except_NameError_def split: option.split)

lemma try_except_NameError_state: "snd (try_except_NameError r) = snd r"
  by (simp add: try_except_NameError_def split: option.split)

lemmas script_defs = script_BSDFViewer_def script_wireless_def script_VBufferRT_def

text \<open>
  C5. With the name \<^verbatim>\<open>m\<close> unbound, each of the three scripts runs to its end and no
  exception leaves it, whatever the state it starts from.
\<close>

theorem absent_session_no_error:
  "fst (script_BSDFViewer None st) = None
   \<and> fst (script_wireless None st) = None
   \<and> fst (script_VBufferRT None st) = None"
  by (simp add: script_defs try_except_NameError_raised call_addGraph_absent
      NameError_is_NameError)

text \<open>
  C10. With the name \<^verbatim>\<open>m\<close> unbound, the state at the end of each script is the state
  reached by the assignment before the \<^verbatim>\<open>try\<close> statement: the module-level name still
  refers to the graph the builder returned, and that graph has the passes, edges and
  marked outputs the builder gave it.
\<close>

theorem failed_registration_keeps_graph:
  "snd (script_BSDFViewer None st) =
     assign_global ''DefaultRenderGraph'' BSDFViewer_render_graph_DefaultRenderGraph st
   \<and> globals (snd (script_BSDFViewer None st)) ''DefaultRenderGraph'' =
       Some (fst (BSDFViewer_render_graph_DefaultRenderGraph st))
   \<and> heap (snd (script_BSDFViewer None st))
        ! fst (BSDFViewer_render_graph_DefaultRenderGraph st) =
       \<lparr>gname = ''DefaultRenderGraph'',
        passes =
          [(''BSDFViewer'', \<lparr>ptype = ''BSDFViewer'', popts = [(''materialID'', PInt 0)]\<rparr>),
           (''AccumulatePass'',
            \<lparr>ptype = ''AccumulatePass'',
             popts = [(''enabled'', PBool True),
                      (''precisionMode'', PEnum ''AccumulatePrecision'' ''Double'')]\<rparr>)],
        edges = [(''BSDFViewer.output'', ''AccumulatePass.input'')],
        outputs = [''AccumulatePass.output'']\<rparr>
   \<and> snd (script_wireless None st) =
       assign_global ''DefaultRenderGraph'' wireless_render_graph_DefaultRenderGraph st
   \<and> globals (snd (script_wireless None st)) ''DefaultRenderGraph'' =
       Some (fst (wireless_render_graph_DefaultRenderGraph st))
   \<and> heap (snd (script_wireless None st))
        ! fst (wireless_render_graph_DefaultRenderGraph st) =
       \<lparr>gname = ''DefaultRenderGraph'',
        passes = [(''wireframe'', \<lparr>ptype = ''wireframe'', popts = []\<rparr>)],
        edges = [],
        outputs = [''wireframe.output'']\<rparr>
   \<and> snd (script_VBufferRT None st) = assign_global ''VBufferRT'' render_graph_VBufferRT st
   \<and> globals (snd (script_VBufferRT None st)) ''VBufferRT'' =
       Some (fst (render_graph_VBufferRT st))
   \<and> heap (snd (script_VBufferRT None st)) ! fst (render_graph_VBufferRT st) =
       \<lparr>gname = ''VBufferRT'',
        passes = [(''VBufferRT'', \<lparr>ptype = ''VBufferRT'', popts = []\<rparr>)],
        edges = [],
        outputs = [''VBufferRT.vbuffer'', ''VBufferRT.depth'', ''VBufferRT.mvec'',
                   ''VBufferRT.viewW'']\<rparr>"
  by (simp add: script_defs try_except_NameError_state call_addGraph_absent
      assign_global_run builder_run)

text \<open>
  C8. With a session object present, the calls a script makes are those of one run of its
  builder followed by one call of \<^verbatim>\<open>m.addGraph\<close>, on the reference the builder returned,
  and that call is the last: whether it returns or raises, the script makes no further
  call, and the store is the one \<^verbatim>\<open>addGraph\<close> left. With the name \<^verbatim>\<open>m\<close> unbound, the
  calls are those of one run of the builder.
\<close>

theorem build_once_register_once:
  "issued st (snd (script_BSDFViewer (Some s) st)) =
     issued st (snd (BSDFViewer_render_graph_DefaultRenderGraph st))
       @ [Call_addGraph (fst (BSDFViewer_render_graph_DefaultRenderGraph st))]
   \<and> heap (snd (script_BSDFViewer (Some s) st)) =
       snd (s (fst (BSDFViewer_render_graph_DefaultRenderGraph st))
              (heap (snd (BSDFViewer_render_graph_DefaultRenderGraph st))))
   \<and> issued st (snd (script_BSDFViewer None st)) =
       issued st (snd (BSDFViewer_render_graph_DefaultRenderGraph st))
   \<and> issued st (snd (script_wireless (Some s) st)) =
       issued st (snd (wireless_render_graph_DefaultRenderGraph st))
         @ [Call_addGraph (fst (wireless_render_graph_DefaultRenderGraph st))]
   \<and> heap (snd (script_wireless (Some s) st)) =
       snd (s (fst (wireless_render_graph_DefaultRenderGraph st))
              (heap (snd (wireless_render_graph_DefaultRenderGraph st))))
   \<and> issued st (snd (script_wireless None st)) =
       issued st (snd (wireless_render_graph_DefaultRenderGraph st))
   \<and> issued st (snd (script_VBufferRT (Some s) st)) =
       issued st (snd (render_graph_VBufferRT st))
         @ [Call_addGraph (fst (render_graph_VBufferRT st))]
   \<and> heap (snd (script_VBufferRT (Some s) st)) =
       snd (s (fst (render_graph_VBufferRT st)) (heap (snd (render_graph_VBufferRT st))))
   \<and> issued st (snd (script_VBufferRT None st)) =
       issued st (snd (render_graph_VBufferRT st))
   \<and> length [c \<leftarrow> issued st (snd (script_BSDFViewer (Some s) st)).
         case c of Call_RenderGraph n \<Rightarrow> True | _ \<Rightarrow> False] = 1
   \<and> length [c \<leftarrow> issued st (snd (script_BSDFViewer (Some s) st)).
         case c of Call_addGraph g \<Rightarrow> True | _ \<Rightarrow> False] = 1
   \<and> length [c \<leftarrow> issued st (snd (script_wireless (Some s) st)).
         case c of Call_RenderGraph n \<Rightarrow> True | _ \<Rightarrow> False] = 1
   \<and> length [c \<leftarrow> issued st (snd (script_wireless (Some s) st)).
         case c of Call_addGraph g \<Rightarrow> True | _ \<Rightarrow> False] = 1
   \<and> length [c \<leftarrow> issued st (snd (script_VBufferRT (Some s) st)).
         case c of Call_RenderGraph n \<Rightarrow> True | _ \<Rightarrow> False] = 1
   \<and> length [c \<leftarrow> issued st (snd (script_VBufferRT (Some s) st)).
         case c of Call_addGraph g \<Rightarrow> True | _ \<Rightarrow> False] = 1"
  by (simp add: script_defs try_except_NameError_state call_addGraph_absent
      call_addGraph_present assign_global_run builder_run issued_def)

text \<open>
  C7. The graph a builder yields does not depend on the state it is run from: two runs,
  from any two states, yield equal graphs (name, passes with types and options in order,
  edges, marked outputs). In particular a second run right after a first one yields a
  new graph object equal to the first, and leaves the first as it was.
\<close>

theorem rerun_yields_equal_graph:
  "heap (snd (BSDFViewer_render_graph_DefaultRenderGraph h1))
     ! fst (BSDFViewer_render_graph_DefaultRenderGraph h1) =
   heap (snd (BSDFViewer_render_graph_DefaultRenderGraph h2))
     ! fst (BSDFViewer_render_graph_DefaultRenderGraph h2)
   \<and> heap (snd (wireless_render_graph_DefaultRenderGraph h1))
     ! fst (wireless_render_graph_DefaultRenderGraph h1) =
   heap (snd (wireless_render_graph_DefaultRenderGraph h2))
     ! fst (wireless_render_graph_DefaultRenderGraph h2)
   \<and> heap (snd (render_graph_VBufferRT h1)) ! fst (render_graph_VBufferRT h1) =
   heap (snd (render_graph_VBufferRT h2)) ! fst (render_graph_VBufferRT h2)
   \<and> fst (BSDFViewer_render_graph_DefaultRenderGraph
            (snd (BSDFViewer_render_graph_DefaultRenderGraph h1)))
       \<noteq> fst (BSDFViewer_render_graph_DefaultRenderGraph h1)
   \<and> heap (snd (BSDFViewer_render_graph_DefaultRenderGraph
                  (snd (BSDFViewer_render_graph_DefaultRenderGraph h1))))
        ! fst (BSDFViewer_render_graph_DefaultRenderGraph h1) =
       heap (snd (BSDFViewer_render_graph_DefaultRenderGraph h1))
        ! fst (BSDFViewer_render_graph_DefaultRenderGraph h1)
   \<and> fst (wireless_render_graph_DefaultRenderGraph
            (snd (wireless_render_graph_DefaultRenderGraph h1)))
       \<noteq> fst (wireless_render_graph_DefaultRenderGraph h1)
   \<and> heap (snd (wireless_render_graph_DefaultRenderGraph
                  (snd (wireless_render_graph_DefaultRenderGraph h1))))
        ! fst (wireless_render_graph_DefaultRenderGraph h1) =
       heap (snd (wireless_render_graph_DefaultRenderGraph h1))
        ! fst (wireless_render_graph_DefaultRenderGraph h1)
   \<and> fst (render_graph_VBufferRT (snd (render_graph_VBufferRT h1)))
       \<noteq> fst (render_graph_VBufferRT h1)
   \<and> heap (snd (render_graph_VBufferRT (snd (render_graph_VBufferRT h1))))
        ! fst (render_graph_VBufferRT h1) =
       heap (snd (render_graph_VBufferRT h1)) ! fst (render_graph_VBufferRT h1)"
  by (simp add: builder_run nth_append)

text \<open>
  C6. In the sequence of calls each builder makes, every port named by an \<^verbatim>\<open>addEdge\<close> or
  a \<^verbatim>\<open>markOutput\<close> call belongs to a pass that an earlier \<^verbatim>\<open>addPass\<close> call has added to
  the same graph. The check walks the sequence call by call, so it holds at every step.
\<close>

theorem ports_of_added_passes:
  "ports_known (issued h (snd (BSDFViewer_render_graph_DefaultRenderGraph h))) []
   \<and> ports_known (issued h (snd (wireless_render_graph_DefaultRenderGraph h))) []
   \<and> ports_known (issued h (snd (render_graph_VBufferRT h))) []"
  by (simp add: builder_run issued_def port_pass_def)

text \<open>
  The check does reject a sequence that marks an output before its pass is added, and one
  that names a pass that is never added.
\<close>

lemma ports_known_rejects:
  "\<not> ports_known
       [Call_markOutput 0 ''wireframe.output'',
        Call_addPass 0 \<lparr>ptype = ''wireframe'', popts = []\<rparr> ''wireframe''] []"
  "\<not> ports_known
       [Call_addPass 0 \<lparr>ptype = ''wireframe'', popts = []\<rparr> ''wireframe'',
        Call_markOutput 0 ''other.output''] []"
  by (simp_all add: port_pass_def)

text \<open>
  C4, as amended. In each of the three scripts the guard around the registration catches
  and ignores exactly the exceptions that are instances of the interpreter's class
  \<^verbatim>\<open>NameError\<close> (the class itself or a subclass of it). That is the \<^verbatim>\<open>NameError\<close> raised
  when the name \<^verbatim>\<open>m\<close> is unbound, and, with a session present, also a \<^verbatim>\<open>NameError\<close>
  that \<^verbatim>\<open>m.addGraph\<close> itself raises. Every exception raised by \<^verbatim>\<open>m.addGraph\<close> that is
  not an instance of \<^verbatim>\<open>NameError\<close> leaves the script. The handler does nothing: the state
  at the end of the script is the state in which the call \<^verbatim>\<open>m.addGraph(...)\<close> ended.
\<close>

theorem guard_catches_NameError_instances:
  "fst (script_BSDFViewer None st) = None
   \<and> fst (script_BSDFViewer (Some s) st) =
       (case addGraph_outcome s BSDFViewer_render_graph_DefaultRenderGraph st of
          None \<Rightarrow> None
        | Some e \<Rightarrow> if isinstance e (Builtin ''NameError'') then None else Some e)
   \<and> snd (script_BSDFViewer m st) =
       snd (call_addGraph m ''DefaultRenderGraph''
              (assign_global ''DefaultRenderGraph''
                 BSDFViewer_render_graph_DefaultRenderGraph st))
   \<and> fst (script_wireless None st) = None
   \<and> fst (script_wireless (Some s) st) =
       (case addGraph_outcome s wireless_render_graph_DefaultRenderGraph st of
          None \<Rightarrow> None
        | Some e \<Rightarrow> if isinstance e (Builtin ''NameError'') then None else Some e)
   \<and> snd (script_wireless m st) =
       snd (call_addGraph m ''DefaultRenderGraph''
              (assign_global ''DefaultRenderGraph''
                 wireless_render_graph_DefaultRenderGraph st))
   \<and> fst (script_VBufferRT None st) = None
   \<and> fst (script_VBufferRT (Some s) st) =
       (case addGraph_outcome s render_graph_VBufferRT st of
          None \<Rightarrow> None
        | Some e \<Rightarrow> if isinstance e (Builtin ''NameError'') then None else Some e)
   \<and> snd (script_VBufferRT m st) =
       snd (call_addGraph m ''VBufferRT'' (assign_global ''VBufferRT'' render_graph_VBufferRT st))"
  by (simp add: script_defs try_except_NameError_raised try_except_NameError_state
      call_addGraph_absent call_addGraph_present NameError_is_NameError assign_global_run
      builder_run addGraph_outcome_def)

text \<open>
  On the empty state, with a session whose \<^verbatim>\<open>addGraph\<close> raises \<^verbatim>\<open>RuntimeError\<close>, the
  exception leaves each of the three scripts.
\<close>

theorem guard_catches_NameError_instances_witness:
  "fst (script_BSDFViewer
          (Some (raising_session
             (Exn [Builtin ''RuntimeError'', Builtin ''Exception'', Builtin ''BaseException''])))
          \<lparr>libraries = [], heap = [], calls = [], globals = Map.empty\<rparr>) =
     Some (Exn [Builtin ''RuntimeError'', Builtin ''Exception'', Builtin ''BaseException''])
   \<and> fst (script_wireless
          (Some (raising_session
             (Exn [Builtin ''RuntimeError'', Builtin ''Exception'', Builtin ''BaseException''])))
          \<lparr>libraries = [], heap = [], calls = [], globals = Map.empty\<rparr>) =
     Some (Exn [Builtin ''RuntimeError'', Builtin ''Exception'', Builtin ''BaseException''])
   \<and> fst (script_VBufferRT
          (Some (raising_session
             (Exn [Builtin ''RuntimeError'', Builtin ''Exception'', Builtin ''BaseException''])))
          \<lparr>libraries = [], heap = [], calls = [], globals = Map.empty\<rparr>) =
     Some (Exn [Builtin ''RuntimeError'', Builtin ''Exception'', Builtin ''BaseException''])"
  using guard_catches_NameError_instances
    [where s = "raising_session
                  (Exn [Builtin ''RuntimeError'', Builtin ''Exception'', Builtin ''BaseException''])"
       and st = "\<lparr>libraries = [], heap = [], calls = [], globals = Map.empty\<rparr>"]
  by (simp add: addGraph_outcome_def raising_session_def isinstance_def)

text \<open>
  C4 as first stated fails: it has every exception raised by \<^verbatim>\<open>m.addGraph\<close> leave the
  script. On the empty state, with a session present whose \<^verbatim>\<open>addGraph\<close> raises
  \<^verbatim>\<open>NameError\<close>, the call does raise it, and no exception leaves any of the three scripts.
\<close>

theorem addGraph_NameError_swallowed:
  "addGraph_outcome (raising_session NameError) BSDFViewer_render_graph_DefaultRenderGraph
       \<lparr>libraries = [], heap = [], calls = [], globals = Map.empty\<rparr> = Some NameError
   \<and> fst (script_BSDFViewer (Some (raising_session NameError))
            \<lparr>libraries = [], heap = [], calls = [], globals = Map.empty\<rparr>) = None
   \<and> addGraph_outcome (raising_session NameError) wireless_render_graph_DefaultRenderGraph
       \<lparr>libraries = [], heap = [], calls = [], globals = Map.empty\<rparr> = Some NameError
   \<and> fst (script_wireless (Some (raising_session NameError))
            \<lparr>libraries = [], heap = [], calls = [], globals = Map.empty\<rparr>) = None
   \<and> addGraph_outcome (raising_session NameError) render_graph_VBufferRT
       \<lparr>libraries = [], heap = [], calls = [], globals = Map.empty\<rparr> = Some NameError
   \<and> fst (script_VBufferRT (Some (raising_session NameError))
            \<lparr>libraries = [], heap = [], calls = [], globals = Map.empty\<rparr>) = None"
  by (simp add: script_defs try_except_NameError_raised call_addGraph_present
      NameError_is_NameError assign_global_run builder_run addGraph_outcome_def
      raising_session_def)

text \<open>
  The clause matches by class. An \<^verbatim>\<open>UnboundLocalError\<close>, a subclass of \<^verbatim>\<open>NameError\<close>,
  is caught as well; an exception of another class that is merely named \<^verbatim>\<open>NameError\<close>
  is not.
\<close>

lemma subclass_of_NameError_is_caught:
  "try_except_NameError
     (Some (Exn [Builtin ''UnboundLocalError'', Builtin ''NameError'', Builtin ''Exception'',
                 Builtin ''BaseException'']), st) =
     (None, st)"
  by (simp add: try_except_NameError_def isinstance_def)

lemma namesake_of_NameError_is_not_caught:
  "try_except_NameError
     (Some (Exn [Defined ''host'' ''NameError'', Builtin ''Exception'',
                 Builtin ''BaseException'']), st) =
     (Some (Exn [Defined ''host'' ''NameError'', Builtin ''Exception'',
                 Builtin ''BaseException'']), st)"
  by (simp add: try_except_NameError_def isinstance_def)

end
